theory Spec2Isabelle
  imports Main "HOL-Library.Finite_Map" "HOL-Library.Char_ord" "HOL-Library.List_Lexorder"
begin

section \<open>The policy package: data model\<close>

text \<open>
  The Go types of \<^verbatim>\<open>policy.go\<close>. A Go \<^verbatim>\<open>string\<close> is a byte sequence, here a
  \<^typ>\<open>string\<close>. A pointer that may be \<^verbatim>\<open>nil\<close>, a slice that may be \<^verbatim>\<open>nil\<close> and a
  map that may be \<^verbatim>\<open>nil\<close> are options (\<open>None\<close> is \<^verbatim>\<open>nil\<close>): the encoder and
  \<^verbatim>\<open>AddCondition\<close> tell a nil value from an empty one. A Go map is a finite map;
  strings are ordered bytewise, as Go compares them.
\<close>

type_synonym InvalidPolicyVersionError = string
type_synonym InvalidEffectError = string

definition InvalidPolicyVersionError_Version :: "InvalidPolicyVersionError \<Rightarrow> string" where
  "InvalidPolicyVersionError_Version s = s"

definition InvalidPolicyVersionError_Error :: "InvalidPolicyVersionError \<Rightarrow> string" where
  "InvalidPolicyVersionError_Error s = ''Invalid Policy Version '' @ s"

definition InvalidEffectError_Error :: "InvalidEffectError \<Rightarrow> string" where
  "InvalidEffectError_Error s = ''Invalid Effect '' @ s"

text \<open>
  The values of Go's \<^verbatim>\<open>error\<close> interface that decoding can return: the two error
  types of the package, and the two kinds of error of \<^verbatim>\<open>encoding/json\<close> itself.
  \<open>phasePanic\<close> stands for the panic of the decoder when its own scanner and the
  bytes disagree, which the check of the input rules out.
\<close>

datatype error =
    InvalidPolicyVersionError InvalidPolicyVersionError
  | InvalidEffectError InvalidEffectError
  | SyntaxError
  | UnmarshalTypeError
  | phasePanic

text \<open>The run-time panics of the mutators.\<close>

datatype panic = NilMapAssignment | NilPointerDereference

type_synonym PolicyVersion = unit

type_synonym Effect = bool

definition Allow :: Effect where "Allow = True"
definition Deny :: Effect where "Deny = False"

record Principal =
  Aws :: "string list option"

type_synonym ConditionType = string
type_synonym ConditionVariable = string

type_synonym ConditionMap =
  "(ConditionType, (ConditionVariable, string list option) fmap option) fmap"

record Statement =
  Sid :: "string option"
  Effect :: Effect
  Principal :: "Principal option"
  NotPrincipal :: "Principal option"
  Action :: "string list option"
  NotAction :: "string list option"
  Resource :: string
  Condition :: "ConditionMap option"

record Policy =
  Version :: PolicyVersion
  Id' :: "string option"
  Statement :: "Statement option list option"

subsection \<open>The version and the effect as JSON\<close>

definition PolicyVersion_MarshalJSON :: "PolicyVersion \<Rightarrow> error + string" where
  \<open>PolicyVersion_MarshalJSON v = Inr ''"2012-10-17"''\<close>

definition PolicyVersion_UnmarshalJSON :: "string \<Rightarrow> error + PolicyVersion" where
  \<open>PolicyVersion_UnmarshalJSON b =
     (if b = ''"2012-10-17"'' \<or> b = ''"2008-10-17"'' then Inr ()
      else Inl (InvalidPolicyVersionError b))\<close>

definition Effect_MarshalJSON :: "Effect \<Rightarrow> error + string" where
  \<open>Effect_MarshalJSON e = (if e then Inr ''"Allow"'' else Inr ''"Deny"'')\<close>

text \<open>
  \<^verbatim>\<open>UnmarshalJSON\<close> of an effect writes through its receiver only when it succeeds;
  the model returns the value written.
\<close>

definition Effect_UnmarshalJSON :: "string \<Rightarrow> error + Effect" where
  \<open>Effect_UnmarshalJSON b =
     (if b = ''"Allow"'' then Inr True
      else if b = ''"Deny"'' then Inr False
      else Inl (InvalidEffectError b))\<close>

subsection \<open>Building a policy\<close>

definition NewPrincipal :: Principal where
  "NewPrincipal = \<lparr>Aws = Some []\<rparr>"

definition NewPolicy :: Policy where
  "NewPolicy = \<lparr>Version = (), Id' = None, Statement = Some []\<rparr>"


text \<open>Go's \<^verbatim>\<open>append\<close>: a nil slice is an empty one to append to.\<close>

definition append' :: "'a list option \<Rightarrow> 'a \<Rightarrow> 'a list option" where
  "append' xs x = Some ((case xs of None \<Rightarrow> [] | Some ys \<Rightarrow> ys) @ [x])"

text \<open>
  The statement that \<^verbatim>\<open>AddStatement\<close> allocates: the fields it names, every other
  field at its zero value.
\<close>

definition new_statement :: Statement where
  "new_statement =
     \<lparr>Sid = None, Effect = False, Principal = Some NewPrincipal, NotPrincipal = None,
      Action = Some [], NotAction = None, Resource = [], Condition = Some fmempty\<rparr>"

text \<open>
  \<^verbatim>\<open>AddStatement\<close> returns a pointer to the statement it appended; the model returns
  the policy and the index of the statement in it, and \<open>update_statement\<close> is a
  mutation through that pointer.
\<close>

definition AddStatement :: "Policy \<Rightarrow> Policy \<times> nat" where
  "AddStatement p =
     (p\<lparr>Statement := append' (Statement p) (Some new_statement)\<rparr>,
      length (case Statement p of None \<Rightarrow> [] | Some ss \<Rightarrow> ss))"


definition update_statement :: "nat \<Rightarrow> (Statement \<Rightarrow> Statement) \<Rightarrow> Policy \<Rightarrow> Policy" where
  "update_statement i f p =
     (case Statement p of
        None \<Rightarrow> p
      | Some ss \<Rightarrow>
          if i < length ss then p\<lparr>Statement := Some (ss[i := map_option f (ss ! i)])\<rparr>
          else p)"



definition AddNotPrincipal :: "string \<Rightarrow> Statement \<Rightarrow> Statement" where
  "AddNotPrincipal p s =
     (let np = (case NotPrincipal s of None \<Rightarrow> NewPrincipal | Some pr \<Rightarrow> pr)
      in s\<lparr>NotPrincipal := Some (np\<lparr>Aws := append' (Aws np) p\<rparr>)\<rparr>)"



text \<open>
  \<^verbatim>\<open>AddCondition\<close>, statement by statement. Reading a nil map finds no key;
  assigning to an entry of a nil map panics. The first test reads
  \<^verbatim>\<open>s.Condition[t]\<close> and assigns when the key is missing, the second does the same
  one level down, the last line appends. A key can be present with a nil value
  (a decoded \<^verbatim>\<open>null\<close>): the test then finds it, and the nil inner map is assigned to.
\<close>

definition AddCondition ::
  "ConditionType \<Rightarrow> ConditionVariable \<Rightarrow> string \<Rightarrow> Statement \<Rightarrow> panic + Statement" where
  "AddCondition t key v s =
     (case Condition s of
        None \<Rightarrow> Inl NilMapAssignment
      | Some c \<Rightarrow>
          let (c1, inner) =
                (case fmlookup c t of
                   None \<Rightarrow> (fmupd t (Some fmempty) c, Some fmempty)
                 | Some i \<Rightarrow> (c, i))
          in (case inner of
                None \<Rightarrow> Inl NilMapAssignment
              | Some m \<Rightarrow>
                  let (m1, old) =
                        (case fmlookup m key of
                           None \<Rightarrow> (fmupd key (Some []) m, Some [])
                         | Some xs \<Rightarrow> (m, xs))
                  in Inr (s\<lparr>Condition :=
                            Some (fmupd t (Some (fmupd key (append' old v) m1)) c1)\<rparr>)))"


fun AddConditions ::
  "ConditionType \<Rightarrow> ConditionVariable \<Rightarrow> string list \<Rightarrow> Statement \<Rightarrow> panic + Statement" where
  "AddConditions t key [] s = Inr s"
| "AddConditions t key (v # vs) s =
     (case AddCondition t key v s of
        Inl e \<Rightarrow> Inl e
      | Inr s' \<Rightarrow> AddConditions t key vs s')"

subsection \<open>The policies that the package builds\<close>





section \<open>Encoding: \<^verbatim>\<open>json.Marshal\<close> on the types of the package\<close>

text \<open>
  \<^verbatim>\<open>Get\<close> is \<^verbatim>\<open>json.Marshal\<close> of the policy. The encoder of Go's \<^verbatim>\<open>encoding/json\<close>
  is modelled on the types of the package: it first lays the value out as a document
  (\<open>marshal_\<close>...), following the struct tags, and \<open>render\<close> writes the document in
  the compact form.
\<close>

subsection \<open>String literals\<close>

definition RuneError :: nat where "RuneError = 0xFFFD"

text \<open>
  \<^verbatim>\<open>utf8.DecodeRuneInString\<close>: the code point at the head of the bytes and the number
  of bytes it takes, or \<open>(RuneError, 1)\<close> where the bytes are not UTF-8.
\<close>

fun DecodeRuneInString :: "string \<Rightarrow> nat \<times> nat" where
  "DecodeRuneInString [] = (RuneError, 0)"
| "DecodeRuneInString (c0 # cs) =
     (let s0 = (of_char c0 :: nat) in
      if s0 < 0x80 then (s0, 1)
      else if s0 < 0xC2 \<or> 0xF4 < s0 then (RuneError, 1)
      else
        let sz = (if s0 < 0xE0 then 2 else if s0 < 0xF0 then 3 else 4 :: nat);
            lo = (if s0 = 0xE0 then 0xA0 else if s0 = 0xF0 then 0x90 else 0x80 :: nat);
            hi = (if s0 = 0xED then 0x9F else if s0 = 0xF4 then 0x8F else 0xBF :: nat)
        in
        if length (c0 # cs) < sz then (RuneError, 1)
        else
          let s1 = (of_char (cs ! 0) :: nat) in
          if s1 < lo \<or> hi < s1 then (RuneError, 1)
          else if sz \<le> 2 then ((s0 mod 32) * 64 + s1 mod 64, 2)
          else
            let s2 = (of_char (cs ! 1) :: nat) in
            if s2 < 0x80 \<or> 0xBF < s2 then (RuneError, 1)
            else if sz \<le> 3 then ((s0 mod 16) * 4096 + (s1 mod 64) * 64 + s2 mod 64, 3)
            else
              let s3 = (of_char (cs ! 2) :: nat) in
              if s3 < 0x80 \<or> 0xBF < s3 then (RuneError, 1)
              else ((s0 mod 8) * 262144 + (s1 mod 64) * 4096 + (s2 mod 64) * 64 + s3 mod 64, 4))"

definition hex :: string where "hex = ''0123456789abcdef''"

definition backslash :: char where "backslash = CHR 0x5C"
definition dquote :: char where "dquote = CHR 0x22"

text \<open>
  The bytes below \<open>0x80\<close> that the encoder copies as they are (\<^verbatim>\<open>htmlSafeSet\<close>), and
  what it writes for the others.
\<close>

definition htmlSafeSet :: "char \<Rightarrow> bool" where
  "htmlSafeSet c \<longleftrightarrow>
     0x20 \<le> (of_char c :: nat) \<and> (of_char c :: nat) < 0x80 \<and>
     c \<noteq> dquote \<and> c \<noteq> backslash \<and> c \<noteq> CHR ''&'' \<and> c \<noteq> CHR ''<'' \<and> c \<noteq> CHR ''>''"

definition escape_byte :: "char \<Rightarrow> string" where
  "escape_byte c =
     (if htmlSafeSet c then [c]
      else if c = backslash \<or> c = dquote then [backslash, c]
      else if c = CHR 0x08 then [backslash, CHR ''b'']
      else if c = CHR 0x0C then [backslash, CHR ''f'']
      else if c = CHR 0x0A then [backslash, CHR ''n'']
      else if c = CHR 0x0D then [backslash, CHR ''r'']
      else if c = CHR 0x09 then [backslash, CHR ''t'']
      else [backslash, CHR ''u'', CHR ''0'', CHR ''0'',
            hex ! ((of_char c :: nat) div 16), hex ! ((of_char c :: nat) mod 16)])"

function appendString_body :: "string \<Rightarrow> string" where
  "appendString_body [] = []"
| "appendString_body (c # cs) =
     (if (of_char c :: nat) < 0x80 then escape_byte c @ appendString_body cs
      else
        let r = fst (DecodeRuneInString (c # cs)); size = snd (DecodeRuneInString (c # cs)) in
        if r = RuneError \<and> size = 1 then backslash # ''ufffd'' @ appendString_body cs
        else if r = 0x2028 \<or> r = 0x2029
          then backslash # ''u202'' @ [hex ! (r mod 16)]
                 @ appendString_body (drop (size - 1) cs)
        else c # take (size - 1) cs @ appendString_body (drop (size - 1) cs))"
  by pat_completeness auto
termination
  by (relation "measure length") auto

text \<open>\<^verbatim>\<open>appendString\<close> with \<^verbatim>\<open>escapeHTML\<close> set, as \<^verbatim>\<open>json.Marshal\<close> calls it.\<close>

definition appendString :: "string \<Rightarrow> string" where
  "appendString s = dquote # appendString_body s @ [dquote]"

subsection \<open>Documents\<close>

text \<open>
  A document as the encoder lays it out: \<open>JRaw\<close> holds the bytes a \<^verbatim>\<open>MarshalJSON\<close>
  method returned, \<open>JString\<close> a Go string still to be quoted, and the members of an
  object are in the order in which they are written.
\<close>

datatype json =
    JNull
  | JRaw string
  | JString string
  | JArray "json list"
  | JObject "(string \<times> json) list"

fun join :: "string list \<Rightarrow> string" where
  "join [] = []"
| "join [x] = x"
| "join (x # y # ys) = x @ '','' @ join (y # ys)"

fun render :: "json \<Rightarrow> string" where
  "render JNull = ''null''"
| "render (JRaw b) = b"
| "render (JString s) = appendString s"
| "render (JArray js) = ''['' @ join (map render js) @ '']''"
| "render (JObject kvs) =
     ''{'' @ join (map (\<lambda>(k, v). appendString k @ '':'' @ render v) kvs) @ ''}''"

subsection \<open>The layout of the types of the package\<close>

definition marshal_strings :: "string list option \<Rightarrow> json" where
  "marshal_strings xs = (case xs of None \<Rightarrow> JNull | Some ys \<Rightarrow> JArray (map JString ys))"

definition marshal_Principal :: "Principal option \<Rightarrow> json" where
  "marshal_Principal p =
     (case p of None \<Rightarrow> JNull | Some pr \<Rightarrow> JObject [(''AWS'', marshal_strings (Aws pr))])"

text \<open>
  A map is written as an object whose keys are sorted (\<^verbatim>\<open>encoding/json\<close> sorts the
  keys of every map it writes, as strings); a nil map is \<^verbatim>\<open>null\<close>.
\<close>

definition sorted_entries :: "(string, 'v) fmap \<Rightarrow> (string \<times> 'v) list" where
  "sorted_entries m =
     List.map_filter (\<lambda>k. map_option (Pair k) (fmlookup m k)) (sorted_list_of_fset (fmdom m))"

definition marshal_variables :: "(ConditionVariable, string list option) fmap option \<Rightarrow> json" where
  "marshal_variables m =
     (case m of
        None \<Rightarrow> JNull
      | Some vs \<Rightarrow> JObject (map (\<lambda>(k, xs). (k, marshal_strings xs)) (sorted_entries vs)))"

definition marshal_Condition :: "ConditionMap \<Rightarrow> json" where
  "marshal_Condition c = JObject (map (\<lambda>(k, m). (k, marshal_variables m)) (sorted_entries c))"

text \<open>
  The fields of a statement in the order of the struct. A field tagged
  \<^verbatim>\<open>omitempty\<close> is left out when it is a nil pointer, or a slice or a map of length
  zero; the other fields are always written.
\<close>

definition marshal_Statement :: "Statement \<Rightarrow> error + json" where
  "marshal_Statement s =
     (case Effect_MarshalJSON (Effect s) of
        Inl e \<Rightarrow> Inl e
      | Inr eff \<Rightarrow>
          Inr (JObject
            ((case Sid s of None \<Rightarrow> [] | Some i \<Rightarrow> [(''Sid'', JString i)])
             @ [(''Effect'', JRaw eff)]
             @ [(''Principal'', marshal_Principal (Principal s))]
             @ (case NotPrincipal s of
                  None \<Rightarrow> []
                | Some pr \<Rightarrow> [(''NotPrincipal'', marshal_Principal (Some pr))])
             @ [(''Action'', marshal_strings (Action s))]
             @ (case NotAction s of
                  None \<Rightarrow> []
                | Some xs \<Rightarrow> if xs = [] then [] else [(''NotAction'', marshal_strings (Some xs))])
             @ [(''Resource'', JString (Resource s))]
             @ (case Condition s of
                  None \<Rightarrow> []
                | Some c \<Rightarrow> if c = fmempty then [] else [(''Condition'', marshal_Condition c)]))))"

fun marshal_Statements :: "Statement option list \<Rightarrow> error + json list" where
  "marshal_Statements [] = Inr []"
| "marshal_Statements (x # xs) =
     (case (case x of None \<Rightarrow> Inr JNull | Some s \<Rightarrow> marshal_Statement s) of
        Inl e \<Rightarrow> Inl e
      | Inr j \<Rightarrow> (case marshal_Statements xs of Inl e \<Rightarrow> Inl e | Inr js \<Rightarrow> Inr (j # js)))"

definition marshal_Policy :: "Policy \<Rightarrow> error + json" where
  "marshal_Policy p =
     (case PolicyVersion_MarshalJSON (Version p) of
        Inl e \<Rightarrow> Inl e
      | Inr ver \<Rightarrow>
          (case (case Statement p of
                   None \<Rightarrow> Inr JNull
                 | Some ss \<Rightarrow> map_sum (\<lambda>e. e) JArray (marshal_Statements ss)) of
             Inl e \<Rightarrow> Inl e
           | Inr stmts \<Rightarrow>
               Inr (JObject
                 ([(''Version'', JRaw ver)]
                  @ (case Id' p of None \<Rightarrow> [] | Some i \<Rightarrow> [(''Id'', JString i)])
                  @ [(''Statement'', stmts)]))))"

definition Get :: "Policy \<Rightarrow> error + string" where
  "Get p = (case marshal_Policy p of Inl e \<Rightarrow> Inl e | Inr j \<Rightarrow> Inr (render j))"

section \<open>Decoding: \<^verbatim>\<open>json.Unmarshal\<close> on the types of the package\<close>

subsection \<open>The scanner\<close>

text \<open>
  The state machine of \<^verbatim>\<open>scanner.go\<close>, one constructor for each step function. The
  parse stack has its innermost entry at the head. \<open>step\<close> takes one byte and gives
  the next state and the opcode.
\<close>

datatype parse_state = parseObjectKey | parseObjectValue | parseArrayValue

datatype opcode =
    scanContinue | scanBeginLiteral | scanBeginObject | scanObjectKey | scanObjectValue
  | scanEndObject | scanBeginArray | scanArrayValue | scanEndArray | scanSkipSpace
  | scanEnd | scanError

datatype step_fn =
    stateBeginValueOrEmpty | stateBeginValue | stateBeginStringOrEmpty | stateBeginString
  | stateEndValue | stateEndTop
  | stateInString | stateInStringEsc | stateInStringEscU | stateInStringEscU1
  | stateInStringEscU12 | stateInStringEscU123
  | stateNeg | state1 | state0 | stateDot | stateDot0 | stateE | stateESign | stateE0
  | stateT | stateTr | stateTru | stateF | stateFa | stateFal | stateFals
  | stateN | stateNu | stateNul
  | stateError

type_synonym scanner = "step_fn \<times> parse_state list"

definition maxNestingDepth :: nat where "maxNestingDepth = 10000"

definition isSpace :: "char \<Rightarrow> bool" where
  "isSpace c \<longleftrightarrow> c = CHR '' '' \<or> c = CHR 0x09 \<or> c = CHR 0x0D \<or> c = CHR 0x0A"

definition isDigit :: "char \<Rightarrow> bool" where
  "isDigit c \<longleftrightarrow> CHR ''0'' \<le> c \<and> c \<le> CHR ''9''"

definition isHex :: "char \<Rightarrow> bool" where
  "isHex c \<longleftrightarrow> isDigit c \<or> (CHR ''a'' \<le> c \<and> c \<le> CHR ''f'') \<or> (CHR ''A'' \<le> c \<and> c \<le> CHR ''F'')"

definition scan_error :: "parse_state list \<Rightarrow> scanner \<times> opcode" where
  "scan_error ps = ((stateError, ps), scanError)"

definition stateEndTop_step :: "parse_state list \<Rightarrow> char \<Rightarrow> scanner \<times> opcode" where
  "stateEndTop_step ps c =
     (if \<not> isSpace c then ((stateError, ps), scanEnd) else ((stateEndTop, ps), scanEnd))"

definition popParseState :: "parse_state list \<Rightarrow> scanner" where
  "popParseState ps = (if tl ps = [] then (stateEndTop, tl ps) else (stateEndValue, tl ps))"

definition pushParseState ::
  "parse_state list \<Rightarrow> parse_state \<Rightarrow> step_fn \<Rightarrow> opcode \<Rightarrow> scanner \<times> opcode" where
  "pushParseState ps new succ_step succ_op =
     (if length (new # ps) \<le> maxNestingDepth then ((succ_step, new # ps), succ_op)
      else scan_error (new # ps))"

definition stateEndValue_step :: "parse_state list \<Rightarrow> char \<Rightarrow> scanner \<times> opcode" where
  "stateEndValue_step ps c =
     (case ps of
        [] \<Rightarrow> stateEndTop_step ps c
      | innermost # below \<Rightarrow>
          if isSpace c then ((stateEndValue, ps), scanSkipSpace)
          else
            (case innermost of
               parseObjectKey \<Rightarrow>
                 if c = CHR '':'' then ((stateBeginValue, parseObjectValue # below), scanObjectKey)
                 else scan_error ps
             | parseObjectValue \<Rightarrow>
                 if c = CHR '','' then ((stateBeginString, parseObjectKey # below), scanObjectValue)
                 else if c = CHR ''}'' then (popParseState ps, scanEndObject)
                 else scan_error ps
             | parseArrayValue \<Rightarrow>
                 if c = CHR '','' then ((stateBeginValue, ps), scanArrayValue)
                 else if c = CHR '']'' then (popParseState ps, scanEndArray)
                 else scan_error ps))"

definition stateBeginValue_step :: "parse_state list \<Rightarrow> char \<Rightarrow> scanner \<times> opcode" where
  "stateBeginValue_step ps c =
     (if isSpace c then ((stateBeginValue, ps), scanSkipSpace)
      else if c = CHR ''{'' then pushParseState ps parseObjectKey stateBeginStringOrEmpty scanBeginObject
      else if c = CHR ''['' then pushParseState ps parseArrayValue stateBeginValueOrEmpty scanBeginArray
      else if c = dquote then ((stateInString, ps), scanBeginLiteral)
      else if c = CHR ''-'' then ((stateNeg, ps), scanBeginLiteral)
      else if c = CHR ''0'' then ((state0, ps), scanBeginLiteral)
      else if c = CHR ''t'' then ((stateT, ps), scanBeginLiteral)
      else if c = CHR ''f'' then ((stateF, ps), scanBeginLiteral)
      else if c = CHR ''n'' then ((stateN, ps), scanBeginLiteral)
      else if CHR ''1'' \<le> c \<and> c \<le> CHR ''9'' then ((state1, ps), scanBeginLiteral)
      else scan_error ps)"

definition stateBeginString_step :: "parse_state list \<Rightarrow> char \<Rightarrow> scanner \<times> opcode" where
  "stateBeginString_step ps c =
     (if isSpace c then ((stateBeginString, ps), scanSkipSpace)
      else if c = dquote then ((stateInString, ps), scanBeginLiteral)
      else scan_error ps)"

definition state0_step :: "parse_state list \<Rightarrow> char \<Rightarrow> scanner \<times> opcode" where
  "state0_step ps c =
     (if c = CHR ''.'' then ((stateDot, ps), scanContinue)
      else if c = CHR ''e'' \<or> c = CHR ''E'' then ((stateE, ps), scanContinue)
      else stateEndValue_step ps c)"

definition stateESign_step :: "parse_state list \<Rightarrow> char \<Rightarrow> scanner \<times> opcode" where
  "stateESign_step ps c =
     (if isDigit c then ((stateE0, ps), scanContinue) else scan_error ps)"

definition expect :: "char \<Rightarrow> step_fn \<Rightarrow> parse_state list \<Rightarrow> char \<Rightarrow> scanner \<times> opcode" where
  "expect want next ps c = (if c = want then ((next, ps), scanContinue) else scan_error ps)"

definition expect_hex :: "step_fn \<Rightarrow> parse_state list \<Rightarrow> char \<Rightarrow> scanner \<times> opcode" where
  "expect_hex next ps c = (if isHex c then ((next, ps), scanContinue) else scan_error ps)"

fun step :: "scanner \<Rightarrow> char \<Rightarrow> scanner \<times> opcode" where
  "step (stateBeginValueOrEmpty, ps) c =
     (if isSpace c then ((stateBeginValueOrEmpty, ps), scanSkipSpace)
      else if c = CHR '']'' then stateEndValue_step ps c
      else stateBeginValue_step ps c)"
| "step (stateBeginValue, ps) c = stateBeginValue_step ps c"
| "step (stateBeginStringOrEmpty, ps) c =
     (if isSpace c then ((stateBeginStringOrEmpty, ps), scanSkipSpace)
      else if c = CHR ''}'' then stateEndValue_step (parseObjectValue # tl ps) c
      else stateBeginString_step ps c)"
| "step (stateBeginString, ps) c = stateBeginString_step ps c"
| "step (stateEndValue, ps) c = stateEndValue_step ps c"
| "step (stateEndTop, ps) c = stateEndTop_step ps c"
| "step (stateInString, ps) c =
     (if c = dquote then ((stateEndValue, ps), scanContinue)
      else if c = backslash then ((stateInStringEsc, ps), scanContinue)
      else if (of_char c :: nat) < 0x20 then scan_error ps
      else ((stateInString, ps), scanContinue))"
| "step (stateInStringEsc, ps) c =
     (if c \<in> {CHR ''b'', CHR ''f'', CHR ''n'', CHR ''r'', CHR ''t'', backslash, CHR ''/'', dquote}
        then ((stateInString, ps), scanContinue)
      else if c = CHR ''u'' then ((stateInStringEscU, ps), scanContinue)
      else scan_error ps)"
| "step (stateInStringEscU, ps) c = expect_hex stateInStringEscU1 ps c"
| "step (stateInStringEscU1, ps) c = expect_hex stateInStringEscU12 ps c"
| "step (stateInStringEscU12, ps) c = expect_hex stateInStringEscU123 ps c"
| "step (stateInStringEscU123, ps) c = expect_hex stateInString ps c"
| "step (stateNeg, ps) c =
     (if c = CHR ''0'' then ((state0, ps), scanContinue)
      else if CHR ''1'' \<le> c \<and> c \<le> CHR ''9'' then ((state1, ps), scanContinue)
      else scan_error ps)"
| "step (state1, ps) c =
     (if isDigit c then ((state1, ps), scanContinue) else state0_step ps c)"
| "step (state0, ps) c = state0_step ps c"
| "step (stateDot, ps) c =
     (if isDigit c then ((stateDot0, ps), scanContinue) else scan_error ps)"
| "step (stateDot0, ps) c =
     (if isDigit c then ((stateDot0, ps), scanContinue)
      else if c = CHR ''e'' \<or> c = CHR ''E'' then ((stateE, ps), scanContinue)
      else stateEndValue_step ps c)"
| "step (stateE, ps) c =
     (if c = CHR ''+'' \<or> c = CHR ''-'' then ((stateESign, ps), scanContinue)
      else stateESign_step ps c)"
| "step (stateESign, ps) c = stateESign_step ps c"
| "step (stateE0, ps) c =
     (if isDigit c then ((stateE0, ps), scanContinue) else stateEndValue_step ps c)"
| "step (stateT, ps) c = expect (CHR ''r'') stateTr ps c"
| "step (stateTr, ps) c = expect (CHR ''u'') stateTru ps c"
| "step (stateTru, ps) c = expect (CHR ''e'') stateEndValue ps c"
| "step (stateF, ps) c = expect (CHR ''a'') stateFa ps c"
| "step (stateFa, ps) c = expect (CHR ''l'') stateFal ps c"
| "step (stateFal, ps) c = expect (CHR ''s'') stateFals ps c"
| "step (stateFals, ps) c = expect (CHR ''e'') stateEndValue ps c"
| "step (stateN, ps) c = expect (CHR ''u'') stateNu ps c"
| "step (stateNu, ps) c = expect (CHR ''l'') stateNul ps c"
| "step (stateNul, ps) c = expect (CHR ''l'') stateEndValue ps c"
| "step (stateError, ps) c = scan_error ps"

fun steps :: "scanner \<Rightarrow> string \<Rightarrow> scanner" where
  "steps sc [] = sc"
| "steps sc (c # cs) = steps (fst (step sc c)) cs"

text \<open>
  \<^verbatim>\<open>checkValid\<close>: the scanner runs over all the bytes, and at the end \<^verbatim>\<open>eof\<close> sends
  it one space more unless the top-level value is already complete. Every error
  leaves the scanner in \<open>stateError\<close>, which no byte leaves.
\<close>

definition eof :: "scanner \<Rightarrow> bool" where
  "eof sc \<longleftrightarrow>
     fst sc \<noteq> stateError \<and>
     (fst sc = stateEndTop \<or> fst (fst (step sc (CHR '' ''))) = stateEndTop)"

definition checkValid :: "string \<Rightarrow> bool" where
  "checkValid data' = eof (steps (stateBeginValue, []) data')"

subsection \<open>The elements of an array and the members of an object\<close>

text \<open>
  The decoder walks an array or an object with the scanner and cuts it where the
  scanner reports, at the depth of the array or object itself, the end of a key or of
  a value; the space there belongs to no value. \<open>scan_trace\<close> is the run of the
  scanner: each byte with its opcode and the depth of the parse stack after it.
  \<open>chunks\<close> starts behind the opening bracket and stops at the bracket that closes
  it. The bytes of a value are therefore the very bytes that the decoder hands to an
  \<^verbatim>\<open>UnmarshalJSON\<close> method.
\<close>

type_synonym event = "char \<times> opcode \<times> nat"

fun scan_trace :: "scanner \<Rightarrow> string \<Rightarrow> event list" where
  "scan_trace sc [] = []"
| "scan_trace sc (c # cs) =
     (c, snd (step sc c), length (snd (fst (step sc c)))) # scan_trace (fst (step sc c)) cs"

fun chunks :: "string \<Rightarrow> event list \<Rightarrow> string list" where
  "chunks cur [] = (if cur = [] then [] else [cur])"
| "chunks cur ((c, op, d) # es) =
     (if d = 0 then (if cur = [] then [] else [cur])
      else if d = 1 \<and> op \<in> {scanObjectKey, scanObjectValue, scanArrayValue} then cur # chunks [] es
      else if d = 1 \<and> op = scanSkipSpace then chunks cur es
      else chunks (cur @ [c]) es)"

definition elements :: "string \<Rightarrow> string list" where
  "elements item = chunks [] (tl (scan_trace (stateBeginValue, []) item))"

fun pairs :: "string list \<Rightarrow> (string \<times> string) list" where
  "pairs (k # v # rest) = (k, v) # pairs rest"
| "pairs _ = []"

definition members :: "string \<Rightarrow> (string \<times> string) list" where
  "members item = pairs (elements item)"

subsection \<open>String literals\<close>

definition hexval :: "char \<Rightarrow> nat option" where
  "hexval c =
     (if isDigit c then Some (of_char c - of_char (CHR ''0''))
      else if CHR ''a'' \<le> c \<and> c \<le> CHR ''f'' then Some (of_char c - of_char (CHR ''a'') + 10)
      else if CHR ''A'' \<le> c \<and> c \<le> CHR ''F'' then Some (of_char c - of_char (CHR ''A'') + 10)
      else None)"

fun hexrune :: "nat \<Rightarrow> string \<Rightarrow> nat option" where
  "hexrune r [] = Some r"
| "hexrune r (c # cs) = (case hexval c of None \<Rightarrow> None | Some v \<Rightarrow> hexrune (r * 16 + v) cs)"

text \<open>\<^verbatim>\<open>getu4\<close>: the code unit of a \<^verbatim>\<open>\uXXXX\<close> at the head of the bytes; \<open>None\<close> is Go's -1.\<close>

definition getu4 :: "string \<Rightarrow> nat option" where
  "getu4 s =
     (if length s < 6 \<or> s ! 0 \<noteq> backslash \<or> s ! 1 \<noteq> CHR ''u'' then None
      else hexrune 0 (take 4 (drop 2 s)))"

definition EncodeRune :: "nat \<Rightarrow> string" where
  "EncodeRune r =
     (if r \<le> 0x7F then [char_of r]
      else if r \<le> 0x7FF then [char_of (0xC0 + r div 64), char_of (0x80 + r mod 64)]
      else if 0x10FFFF < r \<or> (0xD800 \<le> r \<and> r \<le> 0xDFFF) then [CHR 0xEF, CHR 0xBF, CHR 0xBD]
      else if r \<le> 0xFFFF
        then [char_of (0xE0 + r div 4096), char_of (0x80 + (r div 64) mod 64),
              char_of (0x80 + r mod 64)]
      else [char_of (0xF0 + r div 262144), char_of (0x80 + (r div 4096) mod 64),
            char_of (0x80 + (r div 64) mod 64), char_of (0x80 + r mod 64)])"

definition IsSurrogate :: "nat \<Rightarrow> bool" where
  "IsSurrogate r \<longleftrightarrow> 0xD800 \<le> r \<and> r < 0xE000"

text \<open>\<^verbatim>\<open>utf16.DecodeRune\<close>; the second code unit is absent where \<^verbatim>\<open>getu4\<close> found none.\<close>

definition utf16_DecodeRune :: "nat \<Rightarrow> nat option \<Rightarrow> nat" where
  "utf16_DecodeRune r1 r2 =
     (case r2 of
        None \<Rightarrow> RuneError
      | Some r \<Rightarrow>
          if 0xD800 \<le> r1 \<and> r1 < 0xDC00 \<and> 0xDC00 \<le> r \<and> r < 0xE000
            then (r1 - 0xD800) * 1024 + (r - 0xDC00) + 0x10000
          else RuneError)"

text \<open>
  The loop of \<^verbatim>\<open>unquoteBytes\<close> over the bytes between the quotes. (Its first loop
  only finds out whether there is anything to rewrite.)
\<close>

function unquote_body :: "string \<Rightarrow> string option" where
  "unquote_body [] = Some []"
| "unquote_body (c # cs) =
     (if c = backslash then
        (case cs of
           [] \<Rightarrow> None
         | e # cs' \<Rightarrow>
             if e = dquote \<or> e = backslash \<or> e = CHR ''/'' \<or> e = CHR 0x27
               then map_option ((#) e) (unquote_body cs')
             else if e = CHR ''b'' then map_option ((#) (CHR 0x08)) (unquote_body cs')
             else if e = CHR ''f'' then map_option ((#) (CHR 0x0C)) (unquote_body cs')
             else if e = CHR ''n'' then map_option ((#) (CHR 0x0A)) (unquote_body cs')
             else if e = CHR ''r'' then map_option ((#) (CHR 0x0D)) (unquote_body cs')
             else if e = CHR ''t'' then map_option ((#) (CHR 0x09)) (unquote_body cs')
             else if e = CHR ''u'' then
               (case getu4 (c # cs) of
                  None \<Rightarrow> None
                | Some rr \<Rightarrow>
                    if IsSurrogate rr \<and> utf16_DecodeRune rr (getu4 (drop 5 cs)) \<noteq> RuneError
                      then map_option ((@) (EncodeRune (utf16_DecodeRune rr (getu4 (drop 5 cs)))))
                             (unquote_body (drop 11 cs))
                    else map_option ((@) (EncodeRune (if IsSurrogate rr then RuneError else rr)))
                           (unquote_body (drop 5 cs)))
             else None)
      else if c = dquote \<or> (of_char c :: nat) < 0x20 then None
      else if (of_char c :: nat) < 0x80 then map_option ((#) c) (unquote_body cs)
      else map_option ((@) (EncodeRune (fst (DecodeRuneInString (c # cs)))))
             (unquote_body (drop (snd (DecodeRuneInString (c # cs)) - 1) cs)))"
  by pat_completeness auto
termination
  by (relation "measure length") auto

definition unquoteBytes :: "string \<Rightarrow> string option" where
  "unquoteBytes s =
     (if length s < 2 \<or> hd s \<noteq> dquote \<or> last s \<noteq> dquote then None
      else unquote_body (butlast (tl s)))"

subsection \<open>Storing a value\<close>

text \<open>
  What \<^verbatim>\<open>d.value\<close> does with the bytes \<open>item\<close> of one JSON value depends on the Go
  type it stores into; there is one function for each type that occurs in a policy.
  A function takes the value already there and the error saved so far. It returns
  \<open>Inl\<close> where decoding stops at once (the error of an \<^verbatim>\<open>UnmarshalJSON\<close> method),
  and otherwise the new value with the saved error: a value of the wrong kind is
  skipped and only the first such mismatch is saved (\<^verbatim>\<open>d.saveError\<close>), to be
  returned at the end. The model has no slice capacity: an element that a slice
  grows by starts at its zero value.
\<close>

datatype kind = KObject | KArray | KString | KNull | KBool | KNumber

definition kind_of :: "string \<Rightarrow> kind" where
  "kind_of item =
     (case item of
        [] \<Rightarrow> KNumber
      | c # _ \<Rightarrow>
          if c = CHR ''{'' then KObject
          else if c = CHR ''['' then KArray
          else if c = dquote then KString
          else if c = CHR ''n'' then KNull
          else if c = CHR ''t'' \<or> c = CHR ''f'' then KBool
          else KNumber)"

type_synonym 'a decoded = "error + 'a \<times> error option"

definition saveError :: "error \<Rightarrow> error option \<Rightarrow> error option" where
  "saveError e saved = (case saved of None \<Rightarrow> Some e | Some first \<Rightarrow> Some first)"

definition stored :: "('v \<Rightarrow> 'a) \<Rightarrow> 'v decoded \<Rightarrow> 'a decoded" where
  "stored put r = (case r of Inl e \<Rightarrow> Inl e | Inr (v, saved) \<Rightarrow> Inr (put v, saved))"

definition decode_string :: "string \<Rightarrow> string \<Rightarrow> error option \<Rightarrow> string decoded" where
  "decode_string item old saved =
     (case kind_of item of
        KString \<Rightarrow> (case unquoteBytes item of None \<Rightarrow> Inl phasePanic | Some s \<Rightarrow> Inr (s, saved))
      | KNull \<Rightarrow> Inr (old, saved)
      | _ \<Rightarrow> Inr (old, saveError UnmarshalTypeError saved))"

text \<open>A pointer is set to nil by \<^verbatim>\<open>null\<close> and allocated, when nil, by anything else.\<close>

definition decode_string_ptr ::
  "string \<Rightarrow> string option \<Rightarrow> error option \<Rightarrow> string option decoded" where
  "decode_string_ptr item old saved =
     (case kind_of item of
        KNull \<Rightarrow> Inr (None, saved)
      | _ \<Rightarrow> stored Some (decode_string item (case old of None \<Rightarrow> [] | Some s \<Rightarrow> s) saved))"

fun decode_elements ::
  "(string \<Rightarrow> 'a \<Rightarrow> error option \<Rightarrow> 'a decoded) \<Rightarrow> 'a \<Rightarrow> string list \<Rightarrow> 'a list
     \<Rightarrow> error option \<Rightarrow> 'a list decoded" where
  "decode_elements elem zero [] old saved = Inr ([], saved)"
| "decode_elements elem zero (item # items) old saved =
     (case elem item (case old of [] \<Rightarrow> zero | x # _ \<Rightarrow> x) saved of
        Inl e \<Rightarrow> Inl e
      | Inr (v, saved') \<Rightarrow> stored ((#) v) (decode_elements elem zero items (tl old) saved'))"

text \<open>
  A slice: \<^verbatim>\<open>null\<close> makes it nil; an array is decoded element by element over the
  elements already there, and the slice ends up as long as the array, never nil.
\<close>

definition decode_slice ::
  "(string \<Rightarrow> 'a \<Rightarrow> error option \<Rightarrow> 'a decoded) \<Rightarrow> 'a \<Rightarrow> string \<Rightarrow> 'a list option
     \<Rightarrow> error option \<Rightarrow> 'a list option decoded" where
  "decode_slice elem zero item old saved =
     (case kind_of item of
        KNull \<Rightarrow> Inr (None, saved)
      | KArray \<Rightarrow>
          stored Some
            (decode_elements elem zero (elements item) (case old of None \<Rightarrow> [] | Some xs \<Rightarrow> xs) saved)
      | _ \<Rightarrow> Inr (old, saveError UnmarshalTypeError saved))"

fun decode_members ::
  "(string \<Rightarrow> string \<Rightarrow> 'a \<Rightarrow> error option \<Rightarrow> 'a decoded) \<Rightarrow> (string \<times> string) list \<Rightarrow> 'a
     \<Rightarrow> error option \<Rightarrow> 'a decoded" where
  "decode_members field [] v saved = Inr (v, saved)"
| "decode_members field ((k, item) # ms) v saved =
     (case unquoteBytes k of
        None \<Rightarrow> Inl phasePanic
      | Some key \<Rightarrow>
          (case field key item v saved of
             Inl e \<Rightarrow> Inl e
           | Inr (v', saved') \<Rightarrow> decode_members field ms v' saved'))"

text \<open>
  A map: \<^verbatim>\<open>null\<close> makes it nil; an object allocates the map when it is nil and
  stores, under each key, a value decoded from the zero value.
\<close>

definition decode_map ::
  "(string \<Rightarrow> 'v \<Rightarrow> error option \<Rightarrow> 'v decoded) \<Rightarrow> 'v \<Rightarrow> string \<Rightarrow> (string, 'v) fmap option
     \<Rightarrow> error option \<Rightarrow> (string, 'v) fmap option decoded" where
  "decode_map elem zero item old saved =
     (case kind_of item of
        KNull \<Rightarrow> Inr (None, saved)
      | KObject \<Rightarrow>
          stored Some
            (decode_members (\<lambda>key item' m saved'. stored (\<lambda>v. fmupd key v m) (elem item' zero saved'))
               (members item) (case old of None \<Rightarrow> fmempty | Some m \<Rightarrow> m) saved)
      | _ \<Rightarrow> Inr (old, saveError UnmarshalTypeError saved))"

text \<open>A pointer to a struct, \<open>field\<close> storing one member into the struct.\<close>

definition decode_struct_ptr ::
  "(string \<Rightarrow> string \<Rightarrow> 'a \<Rightarrow> error option \<Rightarrow> 'a decoded) \<Rightarrow> 'a \<Rightarrow> string \<Rightarrow> 'a option
     \<Rightarrow> error option \<Rightarrow> 'a option decoded" where
  "decode_struct_ptr field zero item old saved =
     (case kind_of item of
        KNull \<Rightarrow> Inr (None, saved)
      | KObject \<Rightarrow>
          stored Some
            (decode_members field (members item) (case old of None \<Rightarrow> zero | Some v \<Rightarrow> v) saved)
      | _ \<Rightarrow> Inr (Some (case old of None \<Rightarrow> zero | Some v \<Rightarrow> v), saveError UnmarshalTypeError saved))"

text \<open>
  The field of a struct that a key names: the field of exactly that name, or else the
  first one equal to it under \<^verbatim>\<open>foldName\<close>, which ignores the case of ASCII letters
  and takes U+017F for \<^verbatim>\<open>S\<close> and U+212A for \<^verbatim>\<open>K\<close>. (A code point that folds to
  no ASCII letter is kept as it is: no field name has one.)
\<close>

function foldName :: "string \<Rightarrow> string" where
  "foldName [] = []"
| "foldName (c # cs) =
     (if (of_char c :: nat) < 0x80
        then (if CHR ''a'' \<le> c \<and> c \<le> CHR ''z'' then char_of ((of_char c :: nat) - 32) else c)
               # foldName cs
      else if c = CHR 0xC5 \<and> take 1 cs = [CHR 0xBF] then CHR ''S'' # foldName (drop 1 cs)
      else if c = CHR 0xE2 \<and> take 2 cs = [CHR 0x84, CHR 0xAA] then CHR ''K'' # foldName (drop 2 cs)
      else c # foldName cs)"
  by pat_completeness auto
termination
  by (relation "measure length") auto

definition find_field :: "string list \<Rightarrow> string \<Rightarrow> string option" where
  "find_field names key =
     (if key \<in> set names then Some key else find (\<lambda>n. foldName n = foldName key) names)"

definition zero_Principal :: Principal where
  "zero_Principal = \<lparr>Aws = None\<rparr>"

definition zero_Statement :: Statement where
  "zero_Statement =
     \<lparr>Sid = None, Effect = False, Principal = None, NotPrincipal = None, Action = None,
      NotAction = None, Resource = [], Condition = None\<rparr>"

definition zero_Policy :: Policy where
  "zero_Policy = \<lparr>Version = (), Id' = None, Statement = None\<rparr>"

definition decode_Principal_field ::
  "string \<Rightarrow> string \<Rightarrow> Principal \<Rightarrow> error option \<Rightarrow> Principal decoded" where
  "decode_Principal_field key item p saved =
     (if find_field [''AWS''] key = Some ''AWS''
        then stored (\<lambda>v. p\<lparr>Aws := v\<rparr>) (decode_slice decode_string [] item (Aws p) saved)
      else Inr (p, saved))"

definition decode_Principal ::
  "string \<Rightarrow> Principal option \<Rightarrow> error option \<Rightarrow> Principal option decoded" where
  "decode_Principal = decode_struct_ptr decode_Principal_field zero_Principal"

definition decode_Condition ::
  "string \<Rightarrow> ConditionMap option \<Rightarrow> error option \<Rightarrow> ConditionMap option decoded" where
  "decode_Condition =
     decode_map (decode_map (decode_slice decode_string []) None) None"

definition Statement_fields :: "string list" where
  "Statement_fields =
     [''Sid'', ''Effect'', ''Principal'', ''NotPrincipal'', ''Action'', ''NotAction'',
      ''Resource'', ''Condition'']"

text \<open>
  The effect and the version have an \<^verbatim>\<open>UnmarshalJSON\<close> method, which is given the
  bytes of the value whatever its kind, \<^verbatim>\<open>null\<close> too; its error stops the decoding.
\<close>

definition decode_Statement_field ::
  "string \<Rightarrow> string \<Rightarrow> Statement \<Rightarrow> error option \<Rightarrow> Statement decoded" where
  "decode_Statement_field key item s saved =
     (case find_field Statement_fields key of
        None \<Rightarrow> Inr (s, saved)
      | Some f \<Rightarrow>
          if f = ''Sid'' then stored (\<lambda>v. s\<lparr>Sid := v\<rparr>) (decode_string_ptr item (Sid s) saved)
          else if f = ''Effect'' then
            (case Effect_UnmarshalJSON item of
               Inl e \<Rightarrow> Inl e
             | Inr v \<Rightarrow> Inr (s\<lparr>Effect := v\<rparr>, saved))
          else if f = ''Principal'' then
            stored (\<lambda>v. s\<lparr>Principal := v\<rparr>) (decode_Principal item (Principal s) saved)
          else if f = ''NotPrincipal'' then
            stored (\<lambda>v. s\<lparr>NotPrincipal := v\<rparr>) (decode_Principal item (NotPrincipal s) saved)
          else if f = ''Action'' then
            stored (\<lambda>v. s\<lparr>Action := v\<rparr>) (decode_slice decode_string [] item (Action s) saved)
          else if f = ''NotAction'' then
            stored (\<lambda>v. s\<lparr>NotAction := v\<rparr>) (decode_slice decode_string [] item (NotAction s) saved)
          else if f = ''Resource'' then
            stored (\<lambda>v. s\<lparr>Resource := v\<rparr>) (decode_string item (Resource s) saved)
          else stored (\<lambda>v. s\<lparr>Condition := v\<rparr>) (decode_Condition item (Condition s) saved))"

definition decode_Statement ::
  "string \<Rightarrow> Statement option \<Rightarrow> error option \<Rightarrow> Statement option decoded" where
  "decode_Statement = decode_struct_ptr decode_Statement_field zero_Statement"

definition decode_Policy_field ::
  "string \<Rightarrow> string \<Rightarrow> Policy \<Rightarrow> error option \<Rightarrow> Policy decoded" where
  "decode_Policy_field key item p saved =
     (case find_field [''Version'', ''Id'', ''Statement''] key of
        None \<Rightarrow> Inr (p, saved)
      | Some f \<Rightarrow>
          if f = ''Version'' then
            (case PolicyVersion_UnmarshalJSON item of
               Inl e \<Rightarrow> Inl e
             | Inr v \<Rightarrow> Inr (p\<lparr>Version := v\<rparr>, saved))
          else if f = ''Id'' then stored (\<lambda>v. p\<lparr>Id' := v\<rparr>) (decode_string_ptr item (Id' p) saved)
          else stored (\<lambda>v. p\<lparr>Statement := v\<rparr>)
                 (decode_slice decode_Statement None item (Statement p) saved))"

text \<open>
  \<^verbatim>\<open>json.Unmarshal\<close> into a pointer to a policy: the input is checked as a whole
  first; then the value is stored, \<^verbatim>\<open>null\<close> leaving the policy as it is, and the
  saved error, if there is one, is returned.
\<close>

definition Unmarshal :: "string \<Rightarrow> Policy \<Rightarrow> error + Policy" where
  "Unmarshal data' p =
     (if \<not> checkValid data' then Inl SyntaxError
      else
        let item = dropWhile isSpace data' in
        (case kind_of item of
           KNull \<Rightarrow> Inr p
         | KObject \<Rightarrow>
             (case decode_members decode_Policy_field (members item) p None of
                Inl e \<Rightarrow> Inl e
              | Inr (p', None) \<Rightarrow> Inr p'
              | Inr (p', Some e) \<Rightarrow> Inl e)
         | _ \<Rightarrow> Inl UnmarshalTypeError))"

definition LoadPolicy :: "string \<Rightarrow> error + Policy" where
  "LoadPolicy b = (case Unmarshal b zero_Policy of Inl err \<Rightarrow> Inl err | Inr p \<Rightarrow> Inr p)"

subsection \<open>What decoding an encoded policy gives\<close>

text \<open>\<^verbatim>\<open>utf8.ValidString\<close>: every code point of the bytes decodes.\<close>

function ValidString :: "string \<Rightarrow> bool" where
  "ValidString [] = True"
| "ValidString (c # cs) =
     (\<not> (fst (DecodeRuneInString (c # cs)) = RuneError \<and> snd (DecodeRuneInString (c # cs)) = 1)
      \<and> ValidString (drop (snd (DecodeRuneInString (c # cs)) - 1) cs))"
  by pat_completeness auto
termination
  by (relation "measure length") auto

definition valid_strings :: "string list option \<Rightarrow> bool" where
  "valid_strings xs = (case xs of None \<Rightarrow> True | Some ys \<Rightarrow> list_all ValidString ys)"

definition valid_Principal :: "Principal option \<Rightarrow> bool" where
  "valid_Principal p = (case p of None \<Rightarrow> True | Some pr \<Rightarrow> valid_strings (Aws pr))"

definition valid_variables :: "(ConditionVariable, string list option) fmap option \<Rightarrow> bool" where
  "valid_variables m =
     (case m of
        None \<Rightarrow> True
      | Some vs \<Rightarrow> list_all (\<lambda>(k, xs). ValidString k \<and> valid_strings xs) (sorted_entries vs))"

definition valid_Condition :: "ConditionMap option \<Rightarrow> bool" where
  "valid_Condition c =
     (case c of
        None \<Rightarrow> True
      | Some ops \<Rightarrow> list_all (\<lambda>(k, m). ValidString k \<and> valid_variables m) (sorted_entries ops))"

definition valid_Statement :: "Statement \<Rightarrow> bool" where
  "valid_Statement s \<longleftrightarrow>
     (case Sid s of None \<Rightarrow> True | Some i \<Rightarrow> ValidString i)
     \<and> valid_Principal (Principal s) \<and> valid_Principal (NotPrincipal s)
     \<and> valid_strings (Action s) \<and> valid_strings (NotAction s)
     \<and> ValidString (Resource s) \<and> valid_Condition (Condition s)"

text \<open>A policy all of whose strings are valid UTF-8.\<close>

definition valid_Policy :: "Policy \<Rightarrow> bool" where
  "valid_Policy p \<longleftrightarrow>
     (case Id' p of None \<Rightarrow> True | Some i \<Rightarrow> ValidString i)
     \<and> (case Statement p of
          None \<Rightarrow> True
        | Some ss \<Rightarrow> list_all (\<lambda>x. case x of None \<Rightarrow> True | Some s \<Rightarrow> valid_Statement s) ss)"

text \<open>
  The encoding leaves out an empty \<^verbatim>\<open>NotAction\<close> and an empty \<^verbatim>\<open>Condition\<close>, and a
  field that is left out is nil after decoding.
\<close>

definition decoded_Statement :: "Statement \<Rightarrow> Statement" where
  "decoded_Statement s =
     s\<lparr>NotAction := (if NotAction s = Some [] then None else NotAction s),
       Condition := (if Condition s = Some fmempty then None else Condition s)\<rparr>"

definition decoded_Policy :: "Policy \<Rightarrow> Policy" where
  "decoded_Policy p =
     p\<lparr>Statement := map_option (map (map_option decoded_Statement)) (Statement p)\<rparr>"

text \<open>The same for the condition alone.\<close>

definition nil_empty_Condition :: "Statement \<Rightarrow> Statement" where
  "nil_empty_Condition s =
     s\<lparr>Condition := (if Condition s = Some fmempty then None else Condition s)\<rparr>"

definition nil_empty_Conditions :: "Policy \<Rightarrow> Policy" where
  "nil_empty_Conditions p =
     p\<lparr>Statement := map_option (map (map_option nil_empty_Condition)) (Statement p)\<rparr>"

text \<open>
  Documents of nesting depth at most \<open>n\<close> whose raw parts are the literals that the
  two \<^verbatim>\<open>MarshalJSON\<close> methods return.
\<close>

fun scannable :: "nat \<Rightarrow> json \<Rightarrow> bool" where
  "scannable n JNull = True"
| "scannable n (JRaw b) = (b = appendString ''2012-10-17'' \<or> b = appendString ''Allow'' \<or> b = appendString ''Deny'')"
| "scannable n (JString s) = True"
| "scannable 0 (JArray js) = False"
| "scannable (Suc n) (JArray js) = (\<forall>j \<in> set js. scannable n j)"
| "scannable 0 (JObject kvs) = False"
| "scannable (Suc n) (JObject kvs) = (\<forall>kv \<in> set kvs. scannable n (snd kv))"

text \<open>
  An event of the scanner that \<open>chunks\<close>, cutting at depth \<open>n\<close>, takes into the
  current chunk.
\<close>

definition inner :: "nat \<Rightarrow> event \<Rightarrow> bool" where
  "inner n e \<longleftrightarrow>
     n < snd (snd e)
     \<or> (snd (snd e) = n
         \<and> fst (snd e) \<notin> {scanObjectKey, scanObjectValue, scanArrayValue, scanSkipSpace})"

text \<open>Reading an encoded document: the keys of an object in the order written, and a member.\<close>

fun object_keys :: "json \<Rightarrow> string list" where
  "object_keys (JObject kvs) = map fst kvs"
| "object_keys _ = []"

fun member :: "string \<Rightarrow> json \<Rightarrow> json option" where
  "member k (JObject kvs) = map_of kvs k"
| "member k _ = None"

section \<open>Evaluating the model\<close>

text \<open>The comparisons of a byte with \<open>0x20\<close> and \<open>0x80\<close>, read off its bits.\<close>

lemma byte_lt_0x20: "((of_char c :: nat) < 0x20) = (\<not> digit5 c \<and> \<not> digit6 c \<and> \<not> digit7 c)"
  by (cases c) (auto simp: of_char_def)

lemma byte_lt_0x80: "((of_char c :: nat) < 0x80) = (\<not> digit7 c)"
  by (cases c) (auto simp: of_char_def)

lemma byte_ge_0x20: "(0x20 \<le> (of_char c :: nat)) = (digit5 c \<or> digit6 c \<or> digit7 c)"
  using byte_lt_0x20 [of c] by (simp add: not_less [symmetric])

lemmas byte_simps = byte_lt_0x20 byte_lt_0x80 byte_ge_0x20

lemmas build_defs =
  NewPolicy_def AddStatement_def append'_def new_statement_def NewPrincipal_def
  update_statement_def

lemmas marshal_defs =
  Get_def marshal_Policy_def marshal_Statement_def marshal_Principal_def marshal_strings_def
  PolicyVersion_MarshalJSON_def Effect_MarshalJSON_def

lemmas quote_defs =
  appendString_def escape_byte_def htmlSafeSet_def dquote_def backslash_def byte_simps

lemmas scan_defs =
  checkValid_def eof_def isSpace_def scan_error_def stateEndTop_step_def popParseState_def
  pushParseState_def maxNestingDepth_def stateEndValue_step_def stateBeginValue_step_def
  stateBeginString_step_def state0_step_def stateESign_step_def expect_def expect_hex_def
  elements_def members_def dquote_def backslash_def

lemmas decode_defs =
  LoadPolicy_def Unmarshal_def kind_of_def saveError_def stored_def decode_string_def
  decode_string_ptr_def decode_slice_def decode_map_def decode_struct_ptr_def find_field_def
  decode_Principal_field_def decode_Principal_def decode_Condition_def Statement_fields_def
  decode_Statement_field_def decode_Statement_def decode_Policy_field_def unquoteBytes_def
  zero_Policy_def zero_Principal_def zero_Statement_def
  PolicyVersion_UnmarshalJSON_def Effect_UnmarshalJSON_def byte_simps

(*PROPERTIES*)

section \<open>Properties of the version and the effect\<close>

text \<open>
  C4. Decoding a version succeeds exactly on the two literals \<^verbatim>\<open>"2012-10-17"\<close> and
  \<^verbatim>\<open>"2008-10-17"\<close>. On any other bytes, \<^verbatim>\<open>"2009-10-17"\<close> among them, it fails with
  an \<open>InvalidPolicyVersionError\<close> whose \<^verbatim>\<open>Version()\<close> is the bytes it was given.
\<close>

theorem version_decode:
  \<open>((\<exists>v. PolicyVersion_UnmarshalJSON b = Inr v) \<longleftrightarrow> b = ''"2012-10-17"'' \<or> b = ''"2008-10-17"'')
   \<and> (b \<noteq> ''"2012-10-17"'' \<and> b \<noteq> ''"2008-10-17"'' \<longrightarrow>
        (\<exists>e. PolicyVersion_UnmarshalJSON b = Inl (InvalidPolicyVersionError e)
             \<and> InvalidPolicyVersionError_Version e = b))
   \<and> PolicyVersion_UnmarshalJSON ''"2009-10-17"'' = Inl (InvalidPolicyVersionError ''"2009-10-17"'')\<close>
  by (simp add: PolicyVersion_UnmarshalJSON_def InvalidPolicyVersionError_Version_def)

theorem version_decode_witness:
  \<open>''"2010-01-01"'' \<noteq> ''"2012-10-17"'' \<and> ''"2010-01-01"'' \<noteq> ''"2008-10-17"''
   \<and> (\<exists>e. PolicyVersion_UnmarshalJSON ''"2010-01-01"'' = Inl (InvalidPolicyVersionError e)
           \<and> InvalidPolicyVersionError_Version e = ''"2010-01-01"'')\<close>
  using version_decode [of \<open>''"2010-01-01"''\<close>] by simp

text \<open>
  C5. A version is always written as \<^verbatim>\<open>"2012-10-17"\<close>. The legacy literal
  \<^verbatim>\<open>"2008-10-17"\<close> decodes, to the very value that the current literal decodes to, and
  that value is written as \<^verbatim>\<open>"2012-10-17"\<close>.
\<close>

theorem version_encode_current:
  \<open>PolicyVersion_MarshalJSON v = Inr ''"2012-10-17"''
   \<and> (\<exists>w. PolicyVersion_UnmarshalJSON ''"2008-10-17"'' = Inr w
          \<and> PolicyVersion_MarshalJSON w = Inr ''"2012-10-17"'')
   \<and> PolicyVersion_UnmarshalJSON ''"2008-10-17"'' = PolicyVersion_UnmarshalJSON ''"2012-10-17"''\<close>
  by (simp add: PolicyVersion_MarshalJSON_def PolicyVersion_UnmarshalJSON_def)

text \<open>
  C6. \<open>Allow\<close> is written as \<^verbatim>\<open>"Allow"\<close> and \<open>Deny\<close> as \<^verbatim>\<open>"Deny"\<close>; these two
  literals decode to \<open>Allow\<close> and \<open>Deny\<close>, and any other bytes fail with an
  \<open>InvalidEffectError\<close> that holds the bytes.
\<close>

theorem effect_codec:
  \<open>Effect_MarshalJSON Allow = Inr ''"Allow"''
   \<and> Effect_MarshalJSON Deny = Inr ''"Deny"''
   \<and> Effect_UnmarshalJSON ''"Allow"'' = Inr Allow
   \<and> Effect_UnmarshalJSON ''"Deny"'' = Inr Deny
   \<and> (b \<noteq> ''"Allow"'' \<and> b \<noteq> ''"Deny"'' \<longrightarrow> Effect_UnmarshalJSON b = Inl (InvalidEffectError b))\<close>
  by (simp add: Effect_MarshalJSON_def Effect_UnmarshalJSON_def Allow_def Deny_def)

theorem effect_codec_witness:
  \<open>''"allow"'' \<noteq> ''"Allow"'' \<and> ''"allow"'' \<noteq> ''"Deny"''
   \<and> Effect_UnmarshalJSON ''"allow"'' = Inl (InvalidEffectError ''"allow"'')\<close>
  using effect_codec [of \<open>''"allow"''\<close>] by simp

section \<open>Properties of the encoding\<close>

text \<open>
  C7. A new policy with one statement added and nothing else done encodes to
  exactly these bytes: the effect is \<^verbatim>\<open>Deny\<close>, the principal and the action are
  empty arrays, the resource is the empty string, and there is no \<^verbatim>\<open>Sid\<close>,
  \<^verbatim>\<open>NotPrincipal\<close>, \<^verbatim>\<open>NotAction\<close> or \<^verbatim>\<open>Condition\<close> key.
\<close>

theorem empty_statement_bytes:
  \<open>Get (fst (AddStatement NewPolicy)) =
     Inr ''{"Version":"2012-10-17","Statement":[{"Effect":"Deny","Principal":{"AWS":[]},"Action":[],"Resource":""}]}''\<close>
  by (simp add: build_defs marshal_defs quote_defs)

text \<open>
  C9. \<^verbatim>\<open>AddNotPrincipal("*")\<close> on the statement just added allocates the not-principal,
  which was nil. In the encoding, the member \<^verbatim>\<open>"NotPrincipal":{"AWS":["*"]}\<close> appears
  right after the principal, which is still \<^verbatim>\<open>{"AWS":[]}\<close>, and the members before
  and after it are those of the untouched statement.
\<close>

theorem not_principal_appears:
  \<open>NotPrincipal new_statement = None
   \<and> NotPrincipal (AddNotPrincipal ''*'' new_statement) = Some \<lparr>Aws = Some [''*'']\<rparr>
   \<and> (\<exists>before after.
         marshal_Statement new_statement = Inr (JObject (before @ after))
         \<and> marshal_Statement (AddNotPrincipal ''*'' new_statement) =
             Inr (JObject (before
                    @ [(''NotPrincipal'', JObject [(''AWS'', JArray [JString ''*''])])] @ after))
         \<and> last before = (''Principal'', JObject [(''AWS'', JArray [])]))
   \<and> (case AddStatement NewPolicy of
         (p, i) \<Rightarrow>
           Get (update_statement i (AddNotPrincipal ''*'') p) =
             Inr ''{"Version":"2012-10-17","Statement":[{"Effect":"Deny","Principal":{"AWS":[]},"NotPrincipal":{"AWS":["*"]},"Action":[],"Resource":""}]}'')\<close>
proof -
  have alloc: "NotPrincipal new_statement = None"
    "NotPrincipal (AddNotPrincipal ''*'' new_statement) = Some \<lparr>Aws = Some [''*'']\<rparr>"
    by (simp_all add: AddNotPrincipal_def build_defs)
  have old: "marshal_Statement new_statement =
      Inr (JObject ([(''Effect'', JRaw (CHR 0x22 # ''Deny'' @ [CHR 0x22])),
                     (''Principal'', JObject [(''AWS'', JArray [])])]
                    @ [(''Action'', JArray []), (''Resource'', JString [])]))"
    by (simp add: build_defs marshal_defs)
  have new: "marshal_Statement (AddNotPrincipal ''*'' new_statement) =
      Inr (JObject ([(''Effect'', JRaw (CHR 0x22 # ''Deny'' @ [CHR 0x22])),
                     (''Principal'', JObject [(''AWS'', JArray [])])]
                    @ [(''NotPrincipal'', JObject [(''AWS'', JArray [JString ''*''])])]
                    @ [(''Action'', JArray []), (''Resource'', JString [])]))"
    by (simp add: AddNotPrincipal_def build_defs marshal_defs)
  have frame: "\<exists>before after.
         marshal_Statement new_statement = Inr (JObject (before @ after))
         \<and> marshal_Statement (AddNotPrincipal ''*'' new_statement) =
             Inr (JObject (before
                    @ [(''NotPrincipal'', JObject [(''AWS'', JArray [JString ''*''])])] @ after))
         \<and> last before = (''Principal'', JObject [(''AWS'', JArray [])])"
    apply (rule exI [of _ "[(''Effect'', JRaw (CHR 0x22 # ''Deny'' @ [CHR 0x22])),
                     (''Principal'', JObject [(''AWS'', JArray [])])]"])
    apply (rule exI [of _ "[(''Action'', JArray []), (''Resource'', JString [])]"])
    using old new by simp
  have bytes: \<open>case AddStatement NewPolicy of
         (p, i) \<Rightarrow>
           Get (update_statement i (AddNotPrincipal ''*'') p) =
             Inr ''{"Version":"2012-10-17","Statement":[{"Effect":"Deny","Principal":{"AWS":[]},"NotPrincipal":{"AWS":["*"]},"Action":[],"Resource":""}]}''\<close>
    by (simp add: AddNotPrincipal_def build_defs marshal_defs quote_defs)
  from alloc frame bytes show ?thesis by blast
qed

section \<open>Properties of the conditions\<close>










lemma sorted_entries_keys: "map fst (sorted_entries m) = sorted_list_of_fset (fmdom m)"
proof -
  have "map fst (List.map_filter (\<lambda>k. map_option (Pair k) (fmlookup m k)) ks) = ks"
    if "set ks \<subseteq> fset (fmdom m)" for ks
    using that by (induction ks) (auto simp: List.map_filter_simps fmdom.rep_eq dom_def split: option.splits)
  then show ?thesis by (simp add: sorted_entries_def)
qed

lemma map_of_sorted_entries: "map_of (sorted_entries m) = fmlookup m"
proof
  fix k
  have *: "map_of (List.map_filter (\<lambda>k. map_option (Pair k) (fmlookup m k)) ks) k =
      (if k \<in> set ks then fmlookup m k else None)" for ks
    by (induction ks) (auto simp: List.map_filter_simps split: option.splits)
  show "map_of (sorted_entries m) k = fmlookup m k"
    by (auto simp: sorted_entries_def * fmdom_notD)
qed

lemma object_keys_variables: "object_keys (marshal_variables (Some m)) = sorted_list_of_fset (fmdom m)"
  by (simp add: marshal_variables_def sorted_entries_keys [symmetric] case_prod_unfold comp_def)

lemma object_keys_Condition: "object_keys (marshal_Condition c) = sorted_list_of_fset (fmdom c)"
  by (simp add: marshal_Condition_def sorted_entries_keys [symmetric] case_prod_unfold comp_def)

lemma member_Condition: "member t (marshal_Condition c) = map_option marshal_variables (fmlookup c t)"
  by (simp add: marshal_Condition_def map_of_map map_of_sorted_entries)

lemma member_variables: "member k (marshal_variables (Some m)) = map_option marshal_strings (fmlookup m k)"
  by (simp add: marshal_variables_def map_of_map map_of_sorted_entries)

lemma member_Condition_Statement:
  "Condition s = Some c \<Longrightarrow> c \<noteq> fmempty \<Longrightarrow>
   \<exists>j. marshal_Statement s = Inr j \<and> member ''Condition'' j = Some (marshal_Condition c)"
  by (simp add: marshal_Statement_def Effect_MarshalJSON_def split: option.splits)

text \<open>
  C10. Where a statement has conditions, the \<^verbatim>\<open>Condition\<close> member of its encoding
  lists the operators in strictly increasing byte order, and under each operator
  the variables in strictly increasing byte order, whatever the order of the
  \<^verbatim>\<open>AddCondition\<close> calls; the array of a variable holds its values in the order
  stored. In the example the operator and the variable added last are written first.
\<close>

theorem condition_keys_sorted:
  \<open>(Condition s = Some c \<and> c \<noteq> fmempty \<longrightarrow>
      (\<exists>j. marshal_Statement s = Inr j \<and> member ''Condition'' j = Some (marshal_Condition c))
      \<and> object_keys (marshal_Condition c) = sorted_list_of_fset (fmdom c)
      \<and> sorted_wrt (<) (object_keys (marshal_Condition c))
      \<and> (\<forall>t m. fmlookup c t = Some (Some m) \<longrightarrow>
            (\<exists>j. member t (marshal_Condition c) = Some j
                \<and> object_keys j = sorted_list_of_fset (fmdom m)
                \<and> sorted_wrt (<) (object_keys j)
                \<and> (\<forall>k xs. fmlookup m k = Some (Some xs) \<longrightarrow>
                      member k j = Some (JArray (map JString xs))))))
   \<and> (case AddStatement NewPolicy of
         (p, i) \<Rightarrow>
           (case AddCondition ''StringLike'' ''b'' ''2'' new_statement of
              Inl e \<Rightarrow> False
            | Inr s1 \<Rightarrow>
               (case AddConditions ''ArnEquals'' ''z'' [''1'', ''0''] s1 of
                  Inl e \<Rightarrow> False
                | Inr s2 \<Rightarrow>
                   (case AddCondition ''ArnEquals'' ''a'' ''3'' s2 of
                      Inl e \<Rightarrow> False
                    | Inr s3 \<Rightarrow>
                        Get (update_statement i (\<lambda>_. s3) p) =
                          Inr ''{"Version":"2012-10-17","Statement":[{"Effect":"Deny","Principal":{"AWS":[]},"Action":[],"Resource":"","Condition":{"ArnEquals":{"a":["3"],"z":["1","0"]},"StringLike":{"b":["2"]}}}]}''))))\<close>
proof -
  have gen: "(\<exists>j. marshal_Statement s = Inr j \<and> member ''Condition'' j = Some (marshal_Condition c))
      \<and> object_keys (marshal_Condition c) = sorted_list_of_fset (fmdom c)
      \<and> sorted_wrt (<) (object_keys (marshal_Condition c))
      \<and> (\<forall>t m. fmlookup c t = Some (Some m) \<longrightarrow>
            (\<exists>j. member t (marshal_Condition c) = Some j
                \<and> object_keys j = sorted_list_of_fset (fmdom m)
                \<and> sorted_wrt (<) (object_keys j)
                \<and> (\<forall>k xs. fmlookup m k = Some (Some xs) \<longrightarrow>
                      member k j = Some (JArray (map JString xs)))))"
    if "Condition s = Some c" "c \<noteq> fmempty"
  proof (intro conjI allI impI)
    show "\<exists>j. marshal_Statement s = Inr j \<and> member ''Condition'' j = Some (marshal_Condition c)"
      using that by (rule member_Condition_Statement)
    show "object_keys (marshal_Condition c) = sorted_list_of_fset (fmdom c)"
      by (rule object_keys_Condition)
    show "sorted_wrt (<) (object_keys (marshal_Condition c))"
      by (simp add: object_keys_Condition sorted_list_of_fset.rep_eq)
  next
    fix t m assume tm: "fmlookup c t = Some (Some m)"
    have "member t (marshal_Condition c) = Some (marshal_variables (Some m))"
      by (simp add: member_Condition tm)
    moreover have "sorted_wrt (<) (object_keys (marshal_variables (Some m)))"
      by (simp add: object_keys_variables sorted_list_of_fset.rep_eq)
    moreover have "\<forall>k xs. fmlookup m k = Some (Some xs) \<longrightarrow>
        member k (marshal_variables (Some m)) = Some (JArray (map JString xs))"
      by (simp add: member_variables marshal_strings_def)
    ultimately show "\<exists>j. member t (marshal_Condition c) = Some j
                \<and> object_keys j = sorted_list_of_fset (fmdom m)
                \<and> sorted_wrt (<) (object_keys j)
                \<and> (\<forall>k xs. fmlookup m k = Some (Some xs) \<longrightarrow>
                      member k j = Some (JArray (map JString xs)))"
      using object_keys_variables by blast
  qed
  have ex: \<open>case AddStatement NewPolicy of
         (p, i) \<Rightarrow>
           (case AddCondition ''StringLike'' ''b'' ''2'' new_statement of
              Inl e \<Rightarrow> False
            | Inr s1 \<Rightarrow>
               (case AddConditions ''ArnEquals'' ''z'' [''1'', ''0''] s1 of
                  Inl e \<Rightarrow> False
                | Inr s2 \<Rightarrow>
                   (case AddCondition ''ArnEquals'' ''a'' ''3'' s2 of
                      Inl e \<Rightarrow> False
                    | Inr s3 \<Rightarrow>
                        Get (update_statement i (\<lambda>_. s3) p) =
                          Inr ''{"Version":"2012-10-17","Statement":[{"Effect":"Deny","Principal":{"AWS":[]},"Action":[],"Resource":"","Condition":{"ArnEquals":{"a":["3"],"z":["1","0"]},"StringLike":{"b":["2"]}}}]}'')))\<close>
    by code_simp
  from gen ex show ?thesis by blast
qed

theorem condition_keys_sorted_witness:
  "Condition (new_statement\<lparr>Condition := Some (fmupd ''b'' (Some (fmupd ''y'' (Some [''2'', ''1'']) fmempty))
       (fmupd ''a'' (Some fmempty) fmempty))\<rparr>)
     = Some (fmupd ''b'' (Some (fmupd ''y'' (Some [''2'', ''1'']) fmempty)) (fmupd ''a'' (Some fmempty) fmempty))
   \<and> fmupd ''b'' (Some (fmupd ''y'' (Some [''2'', ''1'']) fmempty)) (fmupd ''a'' (Some fmempty) fmempty) \<noteq> fmempty
   \<and> fmlookup (fmupd ''b'' (Some (fmupd ''y'' (Some [''2'', ''1'']) fmempty)) (fmupd ''a'' (Some fmempty) fmempty)) ''b''
       = Some (Some (fmupd ''y'' (Some [''2'', ''1'']) fmempty))
   \<and> object_keys (marshal_Condition
         (fmupd ''b'' (Some (fmupd ''y'' (Some [''2'', ''1'']) fmempty)) (fmupd ''a'' (Some fmempty) fmempty)))
       = sorted_list_of_fset (fmdom
         (fmupd ''b'' (Some (fmupd ''y'' (Some [''2'', ''1'']) fmempty)) (fmupd ''a'' (Some fmempty) fmempty)))
   \<and> (\<exists>j. member ''b'' (marshal_Condition
         (fmupd ''b'' (Some (fmupd ''y'' (Some [''2'', ''1'']) fmempty)) (fmupd ''a'' (Some fmempty) fmempty))) = Some j
        \<and> member ''y'' j = Some (JArray [JString ''2'', JString ''1'']))"
proof -
  let ?m = "fmupd ''y'' (Some [''2'', ''1'']) fmempty"
  let ?c = "fmupd ''b'' (Some ?m) (fmupd ''a'' (Some fmempty) fmempty)"
  let ?s = "new_statement\<lparr>Condition := Some ?c\<rparr>"
  have h1: "Condition ?s = Some ?c" by simp
  have "fmlookup ?c ''b'' \<noteq> fmlookup fmempty ''b''" by simp
  then have h2: "?c \<noteq> fmempty" by metis
  have h3: "fmlookup ?c ''b'' = Some (Some ?m)" by simp
  have h4: "fmlookup ?m ''y'' = Some (Some [''2'', ''1''])" by simp
  from condition_keys_sorted [of ?s ?c] h1 h2
  have keys: "object_keys (marshal_Condition ?c) = sorted_list_of_fset (fmdom ?c)"
    and inner: "\<forall>t m. fmlookup ?c t = Some (Some m) \<longrightarrow>
            (\<exists>j. member t (marshal_Condition ?c) = Some j
                \<and> object_keys j = sorted_list_of_fset (fmdom m)
                \<and> sorted_wrt (<) (object_keys j)
                \<and> (\<forall>k xs. fmlookup m k = Some (Some xs) \<longrightarrow>
                      member k j = Some (JArray (map JString xs))))"
    by blast+
  from inner h3 obtain j where j: "member ''b'' (marshal_Condition ?c) = Some j"
    "\<forall>k xs. fmlookup ?m k = Some (Some xs) \<longrightarrow> member k j = Some (JArray (map JString xs))"
    by blast
  from j(2) h4 have "member ''y'' j = Some (JArray [JString ''2'', JString ''1''])"
    by fastforce
  with h1 h2 h3 keys j(1) show ?thesis by blast
qed

section \<open>Properties of decoded policies\<close>

text \<open>
  C2. \<^verbatim>\<open>AddCondition\<close> does not complete on every statement. The bytes that \<^verbatim>\<open>Get\<close>
  gives for a policy with one new statement carry no condition; \<^verbatim>\<open>LoadPolicy\<close> of
  these bytes gives a statement whose condition map is nil, and \<^verbatim>\<open>AddCondition\<close> on
  that statement panics on the assignment to the nil map. \<^verbatim>\<open>AddNotPrincipal\<close>, which
  tests for nil before it appends, completes on the same statement.
\<close>

theorem add_condition_after_load:
  \<open>Get (fst (AddStatement NewPolicy)) =
     Inr ''{"Version":"2012-10-17","Statement":[{"Effect":"Deny","Principal":{"AWS":[]},"Action":[],"Resource":""}]}''
   \<and> LoadPolicy ''{"Version":"2012-10-17","Statement":[{"Effect":"Deny","Principal":{"AWS":[]},"Action":[],"Resource":""}]}'' =
       Inr \<lparr>Version = (), Id' = None, Statement = Some [Some (new_statement\<lparr>Condition := None\<rparr>)]\<rparr>
   \<and> AddCondition ''ArnEquals'' ''aws:SourceArn'' ''arn:sns:foo'' (new_statement\<lparr>Condition := None\<rparr>) =
       Inl NilMapAssignment
   \<and> AddNotPrincipal ''*'' (new_statement\<lparr>Condition := None\<rparr>) =
       new_statement\<lparr>Condition := None, NotPrincipal := Some \<lparr>Aws = Some [''*'']\<rparr>\<rparr>\<close>
proof -
  have a: \<open>Get (fst (AddStatement NewPolicy)) =
     Inr ''{"Version":"2012-10-17","Statement":[{"Effect":"Deny","Principal":{"AWS":[]},"Action":[],"Resource":""}]}''\<close>
    by (simp add: build_defs marshal_defs quote_defs)
  have b: \<open>LoadPolicy ''{"Version":"2012-10-17","Statement":[{"Effect":"Deny","Principal":{"AWS":[]},"Action":[],"Resource":""}]}'' =
       Inr \<lparr>Version = (), Id' = None, Statement = Some [Some (new_statement\<lparr>Condition := None\<rparr>)]\<rparr>\<close>
    by (simp add: scan_defs decode_defs new_statement_def NewPrincipal_def)
  have c: "AddCondition ''ArnEquals'' ''aws:SourceArn'' ''arn:sns:foo'' (new_statement\<lparr>Condition := None\<rparr>) =
       Inl NilMapAssignment"
    by (simp add: AddCondition_def)
  have d: "AddNotPrincipal ''*'' (new_statement\<lparr>Condition := None\<rparr>) =
       new_statement\<lparr>Condition := None, NotPrincipal := Some \<lparr>Aws = Some [''*'']\<rparr>\<rparr>"
    by (simp add: AddNotPrincipal_def build_defs)
  from a b c d show ?thesis by blast
qed









end
